theory Spec2Isabelle
  imports Main
begin

section \<open>Python values, errors and dictionaries\<close>

text \<open>
  The values the client handles are the ones \<^verbatim>\<open>json.loads\<close> produces and the ones it
  puts into query parameters and request bodies. Numbers are integers (ids, counts, the
  entity type); JSON floats are not modelled. A dict is an association list in insertion
  order, as a Python dict keeps it; lookup is \<open>map_of\<close>.
\<close>

datatype pyval =
    PNone
  | PBool bool
  | PInt int
  | PStr string
  | PList "pyval list"
  | PDict "(string \<times> pyval) list"

type_synonym pydict = "(string \<times> pyval) list"

text \<open>Every exception the modelled code can raise, as a value.\<close>

datatype py_error =
    AuthError           \<comment> \<open>\<^verbatim>\<open>Exception("Invalid authentication token and secret key.")\<close>\<close>
  | TransportError      \<comment> \<open>whatever \<^verbatim>\<open>requests\<close> raises when no response arrives\<close>
  | TypeError
  | KeyError
  | IndexError
  | ValueError          \<comment> \<open>also \<^verbatim>\<open>json.loads\<close> and \<^verbatim>\<open>strptime\<close> failures\<close>
  | UnboundLocalError
  | OverflowError
  | IOError

text \<open>\<^verbatim>\<open>d[k] = v\<close>: an existing key keeps its position, a new key goes last.\<close>

fun dict_set :: "pydict \<Rightarrow> string \<Rightarrow> pyval \<Rightarrow> pydict" where
  "dict_set [] k v = [(k, v)]"
| "dict_set ((k', v') # d) k v =
     (if k' = k then (k, v) # d else (k', v') # dict_set d k v)"

text \<open>\<^verbatim>\<open>dict(pairs)\<close>: the pairs are inserted from left to right.\<close>

definition dict_of_pairs :: "(string \<times> pyval) list \<Rightarrow> pydict" where
  "dict_of_pairs ps = foldl (\<lambda>d (k, v). dict_set d k v) [] ps"

text \<open>Truth value of an object, as \<^verbatim>\<open>if x:\<close> tests it.\<close>

fun truthy :: "pyval \<Rightarrow> bool" where
  "truthy PNone = False"
| "truthy (PBool b) = b"
| "truthy (PInt i) = (i \<noteq> 0)"
| "truthy (PStr s) = (s \<noteq> [])"
| "truthy (PList xs) = (xs \<noteq> [])"
| "truthy (PDict d) = (d \<noteq> [])"

text \<open>
  \<^verbatim>\<open>obj[k]\<close> for a string \<open>k\<close>: a dict looks the key up and raises KeyError when it is
  absent; a list, a string, a number, a bool or None raises TypeError.
\<close>

fun getitem :: "pyval \<Rightarrow> string \<Rightarrow> py_error + pyval" where
  "getitem (PDict d) k = (case map_of d k of None \<Rightarrow> Inl KeyError | Some v \<Rightarrow> Inr v)"
| "getitem _ k = Inl TypeError"

text \<open>
  \<^verbatim>\<open>for x in obj\<close>: a list yields its elements, a string its characters, a dict its
  keys; None, a number or a bool is not iterable.
\<close>

fun py_iter :: "pyval \<Rightarrow> py_error + pyval list" where
  "py_iter (PList xs) = Inr xs"
| "py_iter (PStr s) = Inr (map (\<lambda>c. PStr [c]) s)"
| "py_iter (PDict d) = Inr (map (\<lambda>kv. PStr (fst kv)) d)"
| "py_iter _ = Inl TypeError"

text \<open>A list comprehension or a loop body run on each element: the first error ends it.\<close>

fun mapE :: "('a \<Rightarrow> py_error + 'b) \<Rightarrow> 'a list \<Rightarrow> py_error + 'b list" where
  "mapE f [] = Inr []"
| "mapE f (x # xs) =
     (case f x of
        Inl e \<Rightarrow> Inl e
      | Inr y \<Rightarrow> (case mapE f xs of Inl e \<Rightarrow> Inl e | Inr ys \<Rightarrow> Inr (y # ys)))"

section \<open>The environment: server, libraries, clock\<close>

text \<open>
  An argument that may be a dict object shared with the caller is passed by reference
  (\<open>Ref\<close>, an address of the store); a value built for this call alone, or an immutable
  one, is passed as \<open>Val\<close>.
\<close>

type_synonym addr = nat

datatype pyarg = Val pyval | Ref addr

text \<open>The entries of a \<^verbatim>\<open>files\<close> dict: a plain form field or an open file.\<close>

datatype filepart = Field string | FileObj string

type_synonym filesdict = "(string \<times> filepart) list"

text \<open>What \<^verbatim>\<open>session.request\<close> is called with (\<^verbatim>\<open>verify=False\<close> always).\<close>

record request =
  req_method :: string
  req_url :: string
  req_params :: pydict
  req_json :: "pyval option"
  req_files :: "filesdict option"
  req_headers :: pydict

datatype reply = Transport_failure | Response int string

text \<open>
  Everything outside the repository is a parameter: the server (its reply may depend on
  the requests seen so far), \<^verbatim>\<open>json.loads\<close> (None: the text is not JSON),
  \<^verbatim>\<open>json.dumps\<close>, \<^verbatim>\<open>strptime\<close> with the format \<^verbatim>\<open>%Y-%m-%dT%H:%M:%S\<close> (None: the
  text does not match), the clock (\<open>clock n\<close> is what the \<open>n\<close>-th call of
  \<^verbatim>\<open>datetime.now()\<close> returns) and the file system. A datetime is a number of
  microseconds since 0001-01-01T00:00:00.
\<close>

record env =
  server :: "request list \<Rightarrow> request \<Rightarrow> reply"
  json_loads :: "string \<Rightarrow> pyval option"
  json_dumps :: "pyval \<Rightarrow> string"
  strptime :: "string \<Rightarrow> int option"
  clock :: "nat \<Rightarrow> int"
  file_exists :: "string \<Rightarrow> bool"

text \<open>
  The state a call can change: the store of shared dict objects, the requests issued so
  far (oldest first), what was printed, and how often the clock was read.
\<close>

record world =
  heap :: "addr \<Rightarrow> pydict"
  sent :: "request list"
  stdout :: "pyval list"
  ticks :: nat

section \<open>class ThreatKB\<close>

record session =
  host :: string
  token :: string
  secret_key :: string
  base_uri :: string
  use_https :: bool
  filter_on_keys :: "string list option"

text \<open>
  A default argument \<^verbatim>\<open>={}\<close> is one dict object, created when the \<^verbatim>\<open>def\<close> runs:
  \<^verbatim>\<open>uri_params={}\<close> of \<^verbatim>\<open>_request\<close> and \<^verbatim>\<open>params={}\<close> of \<^verbatim>\<open>get\<close> each live at
  a fixed address.
\<close>

definition request_default_uri_params :: addr where
  "request_default_uri_params = 0"

definition get_default_params :: addr where
  "get_default_params = 1"

definition default_headers :: pydict where
  "default_headers = [(''Content-Type'', PStr ''application/json;charset=UTF-8'')]"

text \<open>The value an argument denotes in a store.\<close>

fun deref :: "(addr \<Rightarrow> pydict) \<Rightarrow> pyarg \<Rightarrow> pyval" where
  "deref h (Val v) = v"
| "deref h (Ref a) = PDict (h a)"

definition add_credentials :: "session \<Rightarrow> pydict \<Rightarrow> pydict" where
  "add_credentials s d =
     dict_set (dict_set d ''token'' (PStr (token s))) ''secret_key'' (PStr (secret_key s))"

definition build_url :: "session \<Rightarrow> string \<Rightarrow> string" where
  "build_url s uri =
     (if use_https s then ''https'' else ''http'') @ ''://'' @ host s @ base_uri s @ uri"

text \<open>
  \<^verbatim>\<open>_request\<close> (named \<open>p_request\<close>: an Isabelle name cannot start with an underscore).
  The two item assignments write into the dict that was passed; on anything but a dict
  they raise TypeError before a request is made.
\<close>

definition send :: "env \<Rightarrow> request \<Rightarrow> world \<Rightarrow> (py_error + int \<times> string) \<times> world" where
  "send E r w =
     (let w' = w\<lparr>sent := sent w @ [r]\<rparr> in
      case server E (sent w) r of
        Transport_failure \<Rightarrow> (Inl TransportError, w')
      | Response st body \<Rightarrow>
          if st = 401 then (Inl AuthError, w') else (Inr (st, body), w'))"

definition p_request ::
  "env \<Rightarrow> session \<Rightarrow> string \<Rightarrow> string \<Rightarrow> pyarg \<Rightarrow> pyarg option \<Rightarrow> filesdict \<Rightarrow> world
     \<Rightarrow> (py_error + int \<times> string) \<times> world" where
  "p_request E s meth uri uri_params body fls w =
     (case uri_params of
        Val (PDict d) \<Rightarrow>
          send E \<lparr>req_method = meth, req_url = build_url s uri,
                  req_params = add_credentials s d,
                  req_json = map_option (deref (heap w)) body,
                  req_files = (if fls \<noteq> [] then Some fls else None),
                  req_headers = default_headers\<rparr> w
      | Val _ \<Rightarrow> (Inl TypeError, w)
      | Ref a \<Rightarrow>
          (let w1 = w\<lparr>heap := (heap w)(a := add_credentials s (heap w a))\<rparr> in
           send E \<lparr>req_method = meth, req_url = build_url s uri, req_params = heap w1 a,
                   req_json = map_option (deref (heap w1)) body,
                   req_files = (if fls \<noteq> [] then Some fls else None),
                   req_headers = default_headers\<rparr> w1))"

text \<open>
  An id is None, an integer or a string. \<^verbatim>\<open>str(id_) if id_ else ''\<close> tests its truth
  value, so 0 and the empty string add nothing to the path.
\<close>

datatype py_id = IdNone | IdInt int | IdStr string

fun id_truthy :: "py_id \<Rightarrow> bool" where
  "id_truthy IdNone = False"
| "id_truthy (IdInt i) = (i \<noteq> 0)"
| "id_truthy (IdStr s) = (s \<noteq> [])"

fun digits :: "nat \<Rightarrow> string" where
  "digits n =
     (if n < 10 then [char_of (48 + n)]
      else digits (n div 10) @ [char_of (48 + n mod 10)])"

declare digits.simps [simp del]

definition str_of_int :: "int \<Rightarrow> string" where
  "str_of_int i =
     (if i < 0 then CHR ''-'' # digits (nat (- i)) else digits (nat i))"

fun id_str :: "py_id \<Rightarrow> string" where
  "id_str IdNone = ''None''"
| "id_str (IdInt i) = str_of_int i"
| "id_str (IdStr s) = s"

definition id_suffix :: "py_id \<Rightarrow> string" where
  "id_suffix i = (if id_truthy i then ''/'' @ id_str i else [])"

text \<open>\<^verbatim>\<open>get\<close>: \<open>None\<close> for \<open>ps\<close> is the omitted argument, that is the default object.\<close>

definition get ::
  "env \<Rightarrow> session \<Rightarrow> string \<Rightarrow> py_id \<Rightarrow> pyarg option \<Rightarrow> world \<Rightarrow> (py_error + string) \<times> world" where
  "get E s endpoint i ps w =
     (case p_request E s ''GET'' (endpoint @ id_suffix i)
             (case ps of None \<Rightarrow> Ref get_default_params | Some p \<Rightarrow> p) None [] w of
        (Inl e, w') \<Rightarrow> (Inl e, w')
      | (Inr (st, body), w') \<Rightarrow> (Inr body, w'))"

definition update ::
  "env \<Rightarrow> session \<Rightarrow> string \<Rightarrow> py_id \<Rightarrow> pyarg \<Rightarrow> world \<Rightarrow> (py_error + string) \<times> world" where
  "update E s endpoint i json_data w =
     (case p_request E s ''PUT'' (endpoint @ id_suffix i)
             (Ref request_default_uri_params) (Some json_data) [] w of
        (Inl e, w') \<Rightarrow> (Inl e, w')
      | (Inr (st, body), w') \<Rightarrow> (Inr body, w'))"

text \<open>\<^verbatim>\<open>'/'.join([endpoint, id_])\<close> raises TypeError unless \<open>id_\<close> is a string.\<close>

definition delete ::
  "env \<Rightarrow> session \<Rightarrow> string \<Rightarrow> py_id \<Rightarrow> world \<Rightarrow> (py_error + bool) \<times> world" where
  "delete E s endpoint i w =
     (case i of
        IdStr t \<Rightarrow>
          (case p_request E s ''DELETE'' (endpoint @ ''/'' @ t)
                  (Ref request_default_uri_params) None [] w of
             (Inl e, w') \<Rightarrow> (Inl e, w')
           | (Inr (st, body), w') \<Rightarrow> (Inr (st = 200), w'))
      | _ \<Rightarrow> (Inl TypeError, w))"

definition create ::
  "env \<Rightarrow> session \<Rightarrow> string \<Rightarrow> pyarg \<Rightarrow> filesdict \<Rightarrow> world
     \<Rightarrow> (py_error + string option) \<times> world" where
  "create E s endpoint json_data fls w =
     (case (if fls \<noteq> []
            then p_request E s ''POST'' endpoint (Ref request_default_uri_params) None fls w
            else p_request E s ''POST'' endpoint (Ref request_default_uri_params)
                   (Some json_data) [] w) of
        (Inl e, w') \<Rightarrow> (Inl e, w')
      | (Inr (st, body), w') \<Rightarrow> if st = 412 then (Inr None, w') else (Inr (Some body), w'))"

text \<open>
  \<^verbatim>\<open>filter_output\<close>. \<open>project\<close> is
  \<^verbatim>\<open>dict(zip(self.filter_on_keys, [o[k] for k in self.filter_on_keys]))\<close>; the keys are
  strings (the command line splits them off \<^verbatim>\<open>--filter-on-keys\<close>) or the attribute is
  None, which cannot be iterated. \<open>filter_body\<close> is the body of the \<^verbatim>\<open>try\<close>, and
  \<^verbatim>\<open>except Exception\<close> turns every error into the unchanged input.
\<close>

definition project :: "string list option \<Rightarrow> pyval \<Rightarrow> py_error + pyval" where
  "project keys obj =
     (case keys of
        None \<Rightarrow> Inl TypeError
      | Some ks \<Rightarrow>
          (case mapE (getitem obj) ks of
             Inl e \<Rightarrow> Inl e
           | Inr vs \<Rightarrow> Inr (PDict (dict_of_pairs (zip ks vs)))))"

definition filter_body :: "env \<Rightarrow> session \<Rightarrow> string \<Rightarrow> py_error + pyval" where
  "filter_body E s output =
     (case json_loads E output of
        None \<Rightarrow> Inl ValueError
      | Some (PDict d) \<Rightarrow> project (filter_on_keys s) (PDict d)
      | Some v \<Rightarrow>
          (case py_iter v of
             Inl e \<Rightarrow> Inl e
           | Inr objs \<Rightarrow>
               (case mapE (project (filter_on_keys s)) objs of
                  Inl e \<Rightarrow> Inl e
                | Inr results \<Rightarrow> Inr (PList results))))"

definition filter_output :: "env \<Rightarrow> session \<Rightarrow> string \<Rightarrow> pyval" where
  "filter_output E s output =
     (case filter_body E s output of Inl e \<Rightarrow> PStr output | Inr v \<Rightarrow> v)"

section \<open>class ThreatKBHelper\<close>

text \<open>Sequencing: an exception ends the computation and keeps the state reached.\<close>

definition bindE ::
  "(py_error + 'a) \<times> world \<Rightarrow> ('a \<Rightarrow> world \<Rightarrow> (py_error + 'b) \<times> world)
     \<Rightarrow> (py_error + 'b) \<times> world" where
  "bindE m f = (case m of (Inl e, w) \<Rightarrow> (Inl e, w) | (Inr x, w) \<Rightarrow> f x w)"

definition loads :: "env \<Rightarrow> string \<Rightarrow> py_error + pyval" where
  "loads E t = (case json_loads E t of None \<Rightarrow> Inl ValueError | Some v \<Rightarrow> Inr v)"

text \<open>
  \<^verbatim>\<open>get_c2ips_id\<close>: the loop returns in its first round, so it yields the id of the
  first item, or None when \<^verbatim>\<open>total_count\<close> is false or \<^verbatim>\<open>data\<close> is empty.
\<close>

definition first_id :: "pyval \<Rightarrow> py_error + pyval" where
  "first_id results =
     (case getitem results ''total_count'' of
        Inl e \<Rightarrow> Inl e
      | Inr tc \<Rightarrow>
          if truthy tc then
            (case getitem results ''data'' of
               Inl e \<Rightarrow> Inl e
             | Inr data \<Rightarrow>
                 (case py_iter data of
                    Inl e \<Rightarrow> Inl e
                  | Inr [] \<Rightarrow> Inr PNone
                  | Inr (item # _) \<Rightarrow> getitem item ''id''))
          else Inr PNone)"

definition get_c2ips_id ::
  "env \<Rightarrow> session \<Rightarrow> string \<Rightarrow> world \<Rightarrow> (py_error + pyval) \<times> world" where
  \<open>get_c2ips_id E s ip w =
     bindE (get E s ''/c2ips'' IdNone
              (Some (Val (PDict [(''searches'', PStr (''{"ip":"'' @ ip @ ''"}''))]))) w)
       (\<lambda>body w1.
          (case loads E body of
             Inl e \<Rightarrow> (Inl e, w1)
           | Inr results \<Rightarrow> (first_id results, w1)))\<close>

definition py_print :: "pyval \<Rightarrow> world \<Rightarrow> world" where
  "py_print v w = w\<lparr>stdout := stdout w @ [v]\<rparr>"

definition get_c2ips_comments ::
  "env \<Rightarrow> session \<Rightarrow> string \<Rightarrow> world \<Rightarrow> (py_error + pyval) \<times> world" where
  "get_c2ips_comments E s ip w =
     bindE (get_c2ips_id E s ip w)
       (\<lambda>ident w1.
          if truthy ident then
            bindE (get E s ''/comments'' IdNone
                     (Some (Val (PDict [(''entity_type'', PInt 3), (''entity_id'', ident)]))) w1)
              (\<lambda>body w2. (loads E body, w2))
          else (Inr PNone, py_print (PStr ''IP not found'') w1))"

text \<open>
  Dates. \<^verbatim>\<open>timedelta(days=n)\<close> raises OverflowError beyond 999999999 days, and a
  datetime outside the years 1 to 9999 cannot be built (3652059 days).
\<close>

definition max_datetime :: int where
  "max_datetime = 3652059 * 86400000000"

definition minus_days :: "int \<Rightarrow> int \<Rightarrow> py_error + int" where
  "minus_days now days =
     (if \<bar>days\<bar> > 999999999 then Inl OverflowError
      else if 0 \<le> now - days * 86400000000 \<and> now - days * 86400000000 < max_datetime
      then Inr (now - days * 86400000000)
      else Inl OverflowError)"

definition py_strptime :: "env \<Rightarrow> pyval \<Rightarrow> py_error + int" where
  "py_strptime E v =
     (case v of
        PStr t \<Rightarrow> (case strptime E t of None \<Rightarrow> Inl ValueError | Some d \<Rightarrow> Inr d)
      | _ \<Rightarrow> Inl TypeError)"

text \<open>The loop of \<^verbatim>\<open>squelch_check\<close>: each round reads the clock anew.\<close>

fun squelch_loop :: "env \<Rightarrow> int \<Rightarrow> pyval list \<Rightarrow> world \<Rightarrow> (py_error + bool) \<times> world" where
  "squelch_loop E days [] w = (Inr False, w)"
| "squelch_loop E days (c # cs) w =
     (let w' = w\<lparr>ticks := Suc (ticks w)\<rparr> in
      case minus_days (clock E (ticks w)) days of
        Inl e \<Rightarrow> (Inl e, w')
      | Inr check_date \<Rightarrow>
          (case getitem c ''date_modified'' of
             Inl e \<Rightarrow> (Inl e, w')
           | Inr v \<Rightarrow>
               (case py_strptime E v of
                  Inl e \<Rightarrow> (Inl e, w')
                | Inr date_modified \<Rightarrow>
                    if check_date < date_modified then (Inr True, w')
                    else squelch_loop E days cs w')))"

definition squelch_check ::
  "env \<Rightarrow> session \<Rightarrow> string \<Rightarrow> int \<Rightarrow> world \<Rightarrow> (py_error + bool) \<times> world" where
  "squelch_check E s ip days w =
     bindE (get_c2ips_comments E s ip w)
       (\<lambda>comments w1.
          case py_iter comments of
            Inl e \<Rightarrow> (Inl e, w1)
          | Inr cs \<Rightarrow> squelch_loop E days cs w1)"

section \<open>The command handlers\<close>

definition ENTITY_TYPES :: pydict where
  "ENTITY_TYPES =
     [(''yara_rule'', PInt 1), (''c2dns'', PInt 2), (''c2ip'', PInt 3), (''task'', PInt 4)]"

definition dict_get :: "pydict \<Rightarrow> string \<Rightarrow> pyval" where
  "dict_get d k = (case map_of d k of None \<Rightarrow> PNone | Some v \<Rightarrow> v)"

definition join_lines :: "string list \<Rightarrow> string" where
  "join_lines ls =
     concat (case ls of [] \<Rightarrow> [] | l # rest \<Rightarrow> l # map (\<lambda>x. CHR 0x0A # x) rest)"

text \<open>
  \<^verbatim>\<open>help\<close> (here \<open>py_help\<close>) builds the usage text and returns it: it neither prints nor exits (its
  parameter \<^verbatim>\<open>exit\<close> is never read).
\<close>

definition py_help :: "string list \<Rightarrow> string \<Rightarrow> py_error + string" where
  "py_help params extra_text =
     (case params of
        [] \<Rightarrow> Inl IndexError
      | p0 # _ \<Rightarrow>
          Inr (join_lines
            [[],
             ''    '' @ p0 @ '' <options> <command> '',
             ''    '',
             ''    Options:'',
             ''      --filter-on-field: Object field to filter on. (EX: You only want the IDs of some search result)'',
             ''    '',
             ''    Commands:'',
             ''      configure: Configure the cli api'',
             ''      attach: attach a file to an artifact'',
             ''      comments: comment on an artifact'',
             ''      release: pull release data from a specific release'',
             ''      search: search the database'',
             [],
             ''    '' @ extra_text,
             ''    '']))"

definition attach_usage :: "string \<Rightarrow> string" where
  "attach_usage p0 = join_lines
     [p0 @ '' attach <artifact> <artifact_id> <file>'',
      ''        '',
      ''        artifact: yara_rule, c2dns, c2ip, task'',
      ''        artifact_id: artifact id as an integer'',
      ''        file: the file to attach to the entity'']"

definition comment_usage :: "string \<Rightarrow> string" where
  "comment_usage p0 = join_lines
     [p0 @ '' comment <artifact> <artifact_id> <comment>'',
      ''        '',
      ''        artifact: yara_rule, c2dns, c2ip, task'',
      ''        artifact_id: artifact id as an integer'',
      ''        comment: the comment to add to the artifact'']"

definition search_usage :: "string \<Rightarrow> string" where
  "search_usage p0 = join_lines
     [p0 @ '' search <filter> <filter_text>'',
      ''        '',
      ''        filter: all, tag, state, category'',
      ''        filter_text: text to filter on'']"

text \<open>
  The \<^verbatim>\<open>except\<close> branch of a handler, taken when \<^verbatim>\<open>params[1:]\<close> does not unpack:
  it evaluates \<^verbatim>\<open>params[0]\<close>, calls \<^verbatim>\<open>help\<close> and drops the text returned. The
  statement after it then reads a local variable that was never bound.
\<close>

definition usage_branch ::
  "(string \<Rightarrow> string) \<Rightarrow> string list \<Rightarrow> world \<Rightarrow> (py_error + unit) \<times> world" where
  "usage_branch usage params w =
     (case params of
        [] \<Rightarrow> (Inl IndexError, w)
      | p0 # _ \<Rightarrow>
          (case py_help params (usage p0) of
             Inl e \<Rightarrow> (Inl e, w)
           | Inr text \<Rightarrow> (Inl UnboundLocalError, w)))"

text \<open>\<^verbatim>\<open>print(x)\<close> of what a client method returned.\<close>

definition print_result ::
  "('a \<Rightarrow> pyval) \<Rightarrow> (py_error + 'a) \<times> world \<Rightarrow> (py_error + unit) \<times> world" where
  "print_result f m = bindE m (\<lambda>x w. (Inr (), py_print (f x) w))"

definition opt_str :: "string option \<Rightarrow> pyval" where
  "opt_str r = (case r of None \<Rightarrow> PNone | Some b \<Rightarrow> PStr b)"

text \<open>
  The handlers read the global \<^verbatim>\<open>THREATKB_CLI\<close>, here the argument \<open>cli\<close>. Where a
  handler leaves \<^verbatim>\<open>json_data\<close> out, \<^verbatim>\<open>create\<close> receives its default, an empty dict
  that nothing writes to.
\<close>

definition attach ::
  "env \<Rightarrow> session \<Rightarrow> string list \<Rightarrow> world \<Rightarrow> (py_error + unit) \<times> world" where
  "attach E cli params w =
     (case drop 1 params of
        [artifact, artifact_id, file] \<Rightarrow>
          if file_exists E file then
            print_result opt_str
              (create E cli ''file_upload'' (Val (PDict []))
                 [(''entity_type'', Field artifact), (''entity_id'', Field artifact_id),
                  (''file'', FileObj file)] w)
          else (Inl IOError, w)
      | _ \<Rightarrow> usage_branch attach_usage params w)"

definition comment ::
  "env \<Rightarrow> session \<Rightarrow> string list \<Rightarrow> world \<Rightarrow> (py_error + unit) \<times> world" where
  "comment E cli params w =
     (case drop 1 params of
        [artifact, artifact_id, comment_text] \<Rightarrow>
          print_result opt_str
            (create E cli ''comments''
               (Val (PStr (json_dumps E
                  (PDict [(''comment'', PStr comment_text),
                          (''entity_type'', dict_get ENTITY_TYPES artifact),
                          (''entity_id'', PStr artifact_id)])))) [] w)
      | _ \<Rightarrow> usage_branch comment_usage params w)"

definition search ::
  "env \<Rightarrow> session \<Rightarrow> string list \<Rightarrow> world \<Rightarrow> (py_error + unit) \<times> world" where
  "search E cli params w =
     (case drop 1 params of
        [fltr, filter_text] \<Rightarrow>
          print_result PStr
            (get E cli ''search'' IdNone (Some (Val (PDict [(fltr, PStr filter_text)]))) w)
      | _ \<Rightarrow> usage_branch search_usage params w)"

section \<open>Notions the properties are stated with\<close>

text \<open>A request carries the credentials of the session among its query parameters.\<close>

definition has_credentials :: "session \<Rightarrow> request \<Rightarrow> bool" where
  "has_credentials s r =
     (map_of (req_params r) ''token'' = Some (PStr (token s)) \<and>
      map_of (req_params r) ''secret_key'' = Some (PStr (secret_key s)))"

text \<open>
  The requested keys, each once, in the order of their first occurrence, and the
  mapping that holds exactly these keys with the values of \<open>d\<close>.
\<close>

definition keys_in_order :: "string list \<Rightarrow> string list" where
  "keys_in_order ks = rev (remdups (rev ks))"

definition has_keys :: "pydict \<Rightarrow> string list \<Rightarrow> bool" where
  "has_keys d ks = list_all (\<lambda>k. map_of d k \<noteq> None) ks"

definition projection :: "pydict \<Rightarrow> string list \<Rightarrow> pydict" where
  "projection d ks = map (\<lambda>k. (k, the (map_of d k))) (keys_in_order ks)"




section \<open>A sample installation\<close>

text \<open>
  A session, an initial state and a server that knows four addresses: 10.0.0.1 has
  id 7 and two comments, 10.0.0.3 has id 0, 10.0.0.4 has id 8 and no comment, 10.0.0.5
  has id 9 and two comments, the first of them without a date; any other address is
  unknown. The clock starts at 2024-05-08T12:00:00.
\<close>

definition ex_session :: session where
  "ex_session =
     \<lparr>host = ''kb.example.org/'', token = ''tok'', secret_key = ''sec'',
      base_uri = ''ThreatKB/'', use_https = True, filter_on_keys = Some [''id'', ''name'']\<rparr>"

definition ex_world :: world where
  "ex_world = \<lparr>heap = (\<lambda>a. []), sent = [], stdout = [], ticks = 0\<rparr>"

definition ex_json :: "(string \<times> pyval) list" where
  \<open>ex_json =
     [(''{"total_count":1,"data":[{"id":7}]}'',
         PDict [(''total_count'', PInt 1), (''data'', PList [PDict [(''id'', PInt 7)]])]),
      (''{"total_count":0,"data":[]}'',
         PDict [(''total_count'', PInt 0), (''data'', PList [])]),
      (''{"total_count":1,"data":[{"id":0}]}'',
         PDict [(''total_count'', PInt 1), (''data'', PList [PDict [(''id'', PInt 0)]])]),
      (''{"total_count":1,"data":[{"id":8}]}'',
         PDict [(''total_count'', PInt 1), (''data'', PList [PDict [(''id'', PInt 8)]])]),
      (''[{"date_modified":"2024-01-02T03:04:05"},{"date_modified":"2024-05-05T09:30:00"}]'',
         PList [PDict [(''date_modified'', PStr ''2024-01-02T03:04:05'')],
                PDict [(''date_modified'', PStr ''2024-05-05T09:30:00'')]]),
      (''[]'', PList []),
      (''{"total_count":1,"data":[{"id":9}]}'',
         PDict [(''total_count'', PInt 1), (''data'', PList [PDict [(''id'', PInt 9)]])]),
      (''[{},{"date_modified":"2024-05-05T09:30:00"}]'',
         PList [PDict [], PDict [(''date_modified'', PStr ''2024-05-05T09:30:00'')]]),
      (''{"id":1,"name":"x","extra":"y"}'',
         PDict [(''id'', PInt 1), (''name'', PStr ''x''), (''extra'', PStr ''y'')]),
      (''[{"id":1,"name":"x","extra":"y"},{"id":2,"name":"z","extra":"w"}]'',
         PList [PDict [(''id'', PInt 1), (''name'', PStr ''x''), (''extra'', PStr ''y'')],
                PDict [(''id'', PInt 2), (''name'', PStr ''z''), (''extra'', PStr ''w'')]]),
      (''{"id":1}'', PDict [(''id'', PInt 1)]),
      (''[{"id":1,"name":"x"},{"id":2}]'',
         PList [PDict [(''id'', PInt 1), (''name'', PStr ''x'')], PDict [(''id'', PInt 2)]])]\<close>

definition ex_server :: "request list \<Rightarrow> request \<Rightarrow> reply" where
  \<open>ex_server history r =
     (if req_url r = ''https://kb.example.org/ThreatKB//c2ips'' then
        (if map_of (req_params r) ''searches'' = Some (PStr ''{"ip":"10.0.0.1"}'')
         then Response 200 ''{"total_count":1,"data":[{"id":7}]}''
         else if map_of (req_params r) ''searches'' = Some (PStr ''{"ip":"10.0.0.3"}'')
         then Response 200 ''{"total_count":1,"data":[{"id":0}]}''
         else if map_of (req_params r) ''searches'' = Some (PStr ''{"ip":"10.0.0.4"}'')
         then Response 200 ''{"total_count":1,"data":[{"id":8}]}''
         else if map_of (req_params r) ''searches'' = Some (PStr ''{"ip":"10.0.0.5"}'')
         then Response 200 ''{"total_count":1,"data":[{"id":9}]}''
         else Response 200 ''{"total_count":0,"data":[]}'')
      else if req_url r = ''https://kb.example.org/ThreatKB//comments'' then
        (if map_of (req_params r) ''entity_id'' = Some (PInt 7)
         then Response 200
           ''[{"date_modified":"2024-01-02T03:04:05"},{"date_modified":"2024-05-05T09:30:00"}]''
         else if map_of (req_params r) ''entity_id'' = Some (PInt 9)
         then Response 200 ''[{},{"date_modified":"2024-05-05T09:30:00"}]''
         else Response 200 ''[]'')
      else if req_url r = ''https://kb.example.org/ThreatKB/c2dns'' then Response 412 ''duplicate''
      else if req_url r = ''https://kb.example.org/ThreatKB/locked'' then Response 401 ''denied''
      else Response 200 ''ok'')\<close>

definition ex_env :: env where
  "ex_env =
     \<lparr>server = ex_server, json_loads = map_of ex_json, json_dumps = (\<lambda>v. []),
      strptime = map_of [(''2024-01-02T03:04:05'', 63839761445000000),
                         (''2024-05-05T09:30:00'', 63850498200000000)],
      clock = (\<lambda>n. 63850766400000000 + int n), file_exists = (\<lambda>p. False)\<rparr>"

section \<open>The HTTP client core\<close>

subsection \<open>Credentials in the query parameters\<close>

lemma map_of_dict_set: "map_of (dict_set d k v) k' = (if k' = k then Some v else map_of d k')"
  by (induction d) auto

lemma add_credentials_has:
  "map_of (add_credentials s d) ''token'' = Some (PStr (token s))"
  "map_of (add_credentials s d) ''secret_key'' = Some (PStr (secret_key s))"
  by (simp_all add: add_credentials_def map_of_dict_set)

lemma send_sent: "sent (snd (send E r w)) = sent w @ [r]"
  by (simp add: send_def Let_def split: reply.split)

lemma send_heap: "heap (snd (send E r w)) = heap w"
  by (simp add: send_def Let_def split: reply.split)

lemma send_result:
  "fst (send E r w) =
     (case server E (sent w) r of
        Transport_failure \<Rightarrow> Inl TransportError
      | Response st b \<Rightarrow> if st = 401 then Inl AuthError else Inr (st, b))"
  by (simp add: send_def Let_def split: reply.split)

text \<open>The request that \<open>p_request\<close> builds for a dict passed by reference.\<close>

lemma p_request_Ref:
  "p_request E s m uri (Ref a) body fls w =
     send E \<lparr>req_method = m, req_url = build_url s uri,
             req_params = add_credentials s (heap w a),
             req_json = map_option (deref ((heap w)(a := add_credentials s (heap w a)))) body,
             req_files = (if fls \<noteq> [] then Some fls else None),
             req_headers = default_headers\<rparr>
       (w\<lparr>heap := (heap w)(a := add_credentials s (heap w a))\<rparr>)"
  by (simp add: p_request_def Let_def)

lemma p_request_Ref_sent:
  "\<exists>r. sent (snd (p_request E s m uri (Ref a) body fls w)) = sent w @ [r] \<and> has_credentials s r"
  by (simp add: p_request_Ref send_sent has_credentials_def add_credentials_has)

lemma p_request_Val_sent:
  "\<exists>r. sent (snd (p_request E s m uri (Val (PDict d)) body fls w)) = sent w @ [r] \<and>
        req_params r = add_credentials s d \<and> has_credentials s r"
  by (simp add: p_request_def send_sent has_credentials_def add_credentials_has)

lemma get_world: "snd (get E s ep i ps w) =
   snd (p_request E s ''GET'' (ep @ id_suffix i)
             (case ps of None \<Rightarrow> Ref get_default_params | Some p \<Rightarrow> p) None [] w)"
  by (simp add: get_def split: prod.split sum.split)

lemma update_world: "snd (update E s ep i jd w) =
   snd (p_request E s ''PUT'' (ep @ id_suffix i) (Ref request_default_uri_params) (Some jd) [] w)"
  by (simp add: update_def split: prod.split sum.split)

lemma delete_world: "snd (delete E s ep (IdStr t) w) =
   snd (p_request E s ''DELETE'' (ep @ ''/'' @ t) (Ref request_default_uri_params) None [] w)"
  by (simp add: delete_def split: prod.split sum.split)

lemma create_world: "snd (create E s ep jd fls w) =
   snd (if fls \<noteq> []
            then p_request E s ''POST'' ep (Ref request_default_uri_params) None fls w
            else p_request E s ''POST'' ep (Ref request_default_uri_params) (Some jd) [] w)"
  by (simp add: create_def split: prod.split sum.split)

text \<open>
  C1. Every request that \<^verbatim>\<open>_request\<close> issues, called directly with a dict (shared or
  built for the call) or through \<^verbatim>\<open>get\<close>, \<^verbatim>\<open>update\<close>, \<^verbatim>\<open>delete\<close> and
  \<^verbatim>\<open>create\<close>, has the session's token under \<^verbatim>\<open>token\<close> and its secret key under
  \<^verbatim>\<open>secret_key\<close> among its query parameters, whatever the caller's dict held under
  these two keys.
\<close>

theorem credentials_in_every_request:
  "(\<exists>r. sent (snd (p_request E s m uri (Ref a) body fls w)) = sent w @ [r] \<and> has_credentials s r) \<and>
   (\<exists>r. sent (snd (p_request E s m uri (Val (PDict d)) body fls w)) = sent w @ [r] \<and>
       req_params r = add_credentials s d \<and> has_credentials s r) \<and>
   (\<exists>r. sent (snd (get E s ep i None w)) = sent w @ [r] \<and> has_credentials s r) \<and>
   (\<exists>r. sent (snd (get E s ep i (Some (Ref a)) w)) = sent w @ [r] \<and> has_credentials s r) \<and>
   (\<exists>r. sent (snd (get E s ep i (Some (Val (PDict d))) w)) = sent w @ [r] \<and>
       req_params r = add_credentials s d \<and> has_credentials s r) \<and>
   (\<exists>r. sent (snd (update E s ep i jd w)) = sent w @ [r] \<and> has_credentials s r) \<and>
   (\<exists>r. sent (snd (delete E s ep (IdStr t) w)) = sent w @ [r] \<and> has_credentials s r) \<and>
   (\<exists>r. sent (snd (create E s ep jd fl w)) = sent w @ [r] \<and> has_credentials s r)"
proof (intro conjI)
  show "\<exists>r. sent (snd (p_request E s m uri (Ref a) body fls w)) = sent w @ [r] \<and> has_credentials s r"
    by (rule p_request_Ref_sent)
  show "\<exists>r. sent (snd (p_request E s m uri (Val (PDict d)) body fls w)) = sent w @ [r] \<and>
       req_params r = add_credentials s d \<and> has_credentials s r"
    by (rule p_request_Val_sent)
  show "\<exists>r. sent (snd (get E s ep i None w)) = sent w @ [r] \<and> has_credentials s r"
    by (simp add: get_world p_request_Ref_sent)
  show "\<exists>r. sent (snd (get E s ep i (Some (Ref a)) w)) = sent w @ [r] \<and> has_credentials s r"
    by (simp add: get_world p_request_Ref_sent)
  show "\<exists>r. sent (snd (get E s ep i (Some (Val (PDict d))) w)) = sent w @ [r] \<and>
       req_params r = add_credentials s d \<and> has_credentials s r"
    by (simp add: get_world p_request_Val_sent)
  show "\<exists>r. sent (snd (update E s ep i jd w)) = sent w @ [r] \<and> has_credentials s r"
    by (simp add: update_world p_request_Ref_sent)
  show "\<exists>r. sent (snd (delete E s ep (IdStr t) w)) = sent w @ [r] \<and> has_credentials s r"
    by (simp add: delete_world p_request_Ref_sent)
  show "\<exists>r. sent (snd (create E s ep jd fl w)) = sent w @ [r] \<and> has_credentials s r"
    by (simp add: create_world p_request_Ref_sent)
qed

subsection \<open>What create returns\<close>

lemma create_sends:
  "create E s ep jd fl w =
    (let w1 = w\<lparr>heap := (heap w)(request_default_uri_params :=
                   add_credentials s (heap w request_default_uri_params))\<rparr>;
         r = \<lparr>req_method = ''POST'', req_url = build_url s ep,
             req_params = add_credentials s (heap w request_default_uri_params),
             req_json = (if fl \<noteq> [] then None else Some (deref (heap w1) jd)),
             req_files = (if fl \<noteq> [] then Some fl else None),
             req_headers = default_headers\<rparr>
     in (case server E (sent w) r of
           Transport_failure \<Rightarrow> Inl TransportError
         | Response st b \<Rightarrow>
             if st = 401 then Inl AuthError else if st = 412 then Inr None else Inr (Some b),
         w1\<lparr>sent := sent w @ [r]\<rparr>))"
  by (simp add: create_def p_request_Ref send_def Let_def split: reply.split)

text \<open>
  C6. \<^verbatim>\<open>create\<close> issues one request; it returns None when the server answers 412 and
  the raw body for any other status except 401, which raises (as does a failure of the
  transport).
\<close>

theorem create_result:
  "\<exists>r. sent (snd (create E s ep jd fl w)) = sent w @ [r] \<and>
       fst (create E s ep jd fl w) =
         (case server E (sent w) r of
            Transport_failure \<Rightarrow> Inl TransportError
          | Response st b \<Rightarrow>
              if st = 412 then Inr None else if st = 401 then Inl AuthError else Inr (Some b))"
  by (simp add: create_sends Let_def split: reply.split)

subsection \<open>Authentication failure\<close>








subsection \<open>Which dictionaries a call writes to\<close>

lemma p_request_Ref_heap:
  "heap (snd (p_request E s m uri (Ref a) body fls w)) = (heap w)(a := add_credentials s (heap w a))"
  by (simp add: p_request_Ref send_heap)

text \<open>
  C9, as the code has it. \<^verbatim>\<open>get\<close> called with a dict writes token and secret key
  into that very object and into no other; called without one it uses the one default
  object of \<^verbatim>\<open>get\<close>, the same at every call. \<^verbatim>\<open>update\<close> and \<^verbatim>\<open>create\<close> have no
  query-parameter argument: whatever dict they are given is the body, and the only object
  they write to is the one default \<^verbatim>\<open>uri_params\<close> object of \<^verbatim>\<open>_request\<close>.
\<close>

theorem written_dictionaries:
  "heap (snd (get E s ep i (Some (Ref a)) w)) = (heap w)(a := add_credentials s (heap w a)) \<and>
   get E s ep i None w = get E s ep i (Some (Ref get_default_params)) w \<and>
   heap (snd (update E s ep i jd w)) =
     (heap w)(request_default_uri_params := add_credentials s (heap w request_default_uri_params)) \<and>
   heap (snd (create E s ep jd fl w)) =
     (heap w)(request_default_uri_params := add_credentials s (heap w request_default_uri_params)) \<and>
   map_of (add_credentials s d) ''token'' = Some (PStr (token s)) \<and>
   map_of (add_credentials s d) ''secret_key'' = Some (PStr (secret_key s))"
proof (intro conjI)
  show "heap (snd (get E s ep i (Some (Ref a)) w)) = (heap w)(a := add_credentials s (heap w a))"
    by (simp add: get_world p_request_Ref_heap)
  show "get E s ep i None w = get E s ep i (Some (Ref get_default_params)) w"
    by (simp add: get_def)
  show "heap (snd (update E s ep i jd w)) =
     (heap w)(request_default_uri_params := add_credentials s (heap w request_default_uri_params))"
    by (simp add: update_world p_request_Ref_heap)
  show "heap (snd (create E s ep jd fl w)) =
     (heap w)(request_default_uri_params := add_credentials s (heap w request_default_uri_params))"
    by (simp add: create_world p_request_Ref_heap)
qed (rule add_credentials_has)+

text \<open>
  C9 as stated fails for \<^verbatim>\<open>update\<close> and \<^verbatim>\<open>create\<close>: the dict supplied to them (here
  the object at address 9) holds no token after the call.
\<close>

theorem supplied_body_not_written:
  "map_of (heap (snd (update ex_env ex_session ''/yara_rules'' (IdInt 5) (Ref 9) ex_world)) 9)
      ''token'' = None \<and>
   map_of (heap (snd (create ex_env ex_session ''c2dns'' (Ref 9) [] ex_world)) 9)
      ''token'' = None"
  by (simp add: update_world create_world p_request_Ref_heap request_default_uri_params_def
        ex_world_def)

section \<open>What the command handlers do\<close>

lemma comment_four:
  "comment E cli [a0, artifact, artifact_id, text] w =
     print_result opt_str
            (create E cli ''comments''
               (Val (PStr (json_dumps E
                  (PDict [(''comment'', PStr text),
                          (''entity_type'', dict_get ENTITY_TYPES artifact),
                          (''entity_id'', PStr artifact_id)])))) [] w)"
  by (simp add: comment_def)

lemma print_result_sent: "sent (snd (print_result f m)) = sent (snd m)"
  by (cases m) (auto simp: print_result_def bindE_def py_print_def split: sum.split)

text \<open>
  C2. The comment command with the arguments \<^verbatim>\<open>comment yara_rule 42 "test comment"\<close>
  issues exactly one POST to the comments endpoint. What it hands to \<^verbatim>\<open>requests\<close> as
  \<^verbatim>\<open>json=\<close> is the text that \<^verbatim>\<open>json.dumps\<close> made of the object, a string, and not the
  object: the body sent is that string serialised once more.
\<close>

theorem comment_sends_serialised_text:
  "sent (snd (comment E cli [''comment'', ''yara_rule'', ''42'', ''test comment''] w)) =
     sent w @
       [\<lparr>req_method = ''POST'', req_url = build_url cli ''comments'',
         req_params = add_credentials cli (heap w request_default_uri_params),
         req_json = Some (PStr (json_dumps E
            (PDict [(''comment'', PStr ''test comment''), (''entity_type'', PInt 1),
                    (''entity_id'', PStr ''42'')]))),
         req_files = None, req_headers = default_headers\<rparr>] \<and>
   PStr (json_dumps E
            (PDict [(''comment'', PStr ''test comment''), (''entity_type'', PInt 1),
                    (''entity_id'', PStr ''42'')])) \<noteq>
   PDict [(''comment'', PStr ''test comment''), (''entity_type'', PInt 1),
                    (''entity_id'', PStr ''42'')]"
  by (simp add: comment_four print_result_sent create_sends Let_def dict_get_def ENTITY_TYPES_def)

text \<open>
  C3. With positional arguments missing, \<^verbatim>\<open>comment\<close>, \<^verbatim>\<open>attach\<close> and \<^verbatim>\<open>search\<close>
  issue no request, but they print nothing either: the usage text is built and dropped,
  and the handler ends with UnboundLocalError, the state unchanged.
\<close>

theorem missing_arguments_crash:
  "comment E cli [''comment''] w = (Inl UnboundLocalError, w) \<and>
   comment E cli [''comment'', ''yara_rule'', ''42''] w = (Inl UnboundLocalError, w) \<and>
   attach E cli [''attach'', ''yara_rule''] w = (Inl UnboundLocalError, w) \<and>
   search E cli [''search''] w = (Inl UnboundLocalError, w)"
  by (simp add: comment_def attach_def search_def usage_branch_def py_help_def)

section \<open>The result filter\<close>


lemma mapE_getitem_present:
  "has_keys d ks \<Longrightarrow> mapE (getitem (PDict d)) ks = Inr (map (\<lambda>k. the (map_of d k)) ks)"
  by (induction ks) (auto simp: has_keys_def)

lemma mapE_getitem_absent:
  "\<not> has_keys d ks \<Longrightarrow> mapE (getitem (PDict d)) ks = Inl KeyError"
  by (induction ks) (auto simp: has_keys_def split: sum.split option.splits)

lemma dict_set_same:
  "dict_set (map (\<lambda>k. (k, f k)) as) k (f k) =
     map (\<lambda>k. (k, f k)) (if k \<in> set as then as else as @ [k])"
  by (induction as) auto

lemma remdups_drop_repeated: "k \<in> set ys \<Longrightarrow> remdups (xs @ k # ys) = remdups (xs @ ys)"
  by (induction xs) auto

lemma keys_in_order_seen: "k \<in> set as \<Longrightarrow> keys_in_order (as @ k # ks) = keys_in_order (as @ ks)"
  by (simp add: keys_in_order_def remdups_drop_repeated)

lemma keys_in_order_distinct: "distinct as \<Longrightarrow> keys_in_order as = as"
  by (simp add: keys_in_order_def distinct_remdups_id)

lemma foldl_dict_set:
  "distinct as \<Longrightarrow>
   foldl (\<lambda>d (k, v). dict_set d k v) (map (\<lambda>k. (k, f k)) as) (map (\<lambda>k. (k, f k)) ks) =
     map (\<lambda>k. (k, f k)) (keys_in_order (as @ ks))"
proof (induction ks arbitrary: as)
  case Nil
  then show ?case by (simp add: keys_in_order_distinct)
next
  case (Cons k ks)
  show ?case
  proof (cases "k \<in> set as")
    case True
    with Cons show ?thesis by (simp add: dict_set_same keys_in_order_seen)
  next
    case False
    with Cons.prems have "distinct (as @ [k])" by simp
    from Cons.IH [OF this] False show ?thesis by (simp add: dict_set_same)
  qed
qed

lemma dict_of_pairs_zip:
  "dict_of_pairs (zip ks (map f ks)) = map (\<lambda>k. (k, f k)) (keys_in_order ks)"
proof -
  have "zip ks (map f ks) = map (\<lambda>k. (k, f k)) ks"
    by (induction ks) auto
  then show ?thesis
    using foldl_dict_set [of "[]" f ks] by (simp add: dict_of_pairs_def)
qed

lemma project_present:
  "has_keys d ks \<Longrightarrow> project (Some ks) (PDict d) = Inr (PDict (projection d ks))"
  by (simp add: project_def mapE_getitem_present dict_of_pairs_zip projection_def)

lemma project_absent:
  "\<not> has_keys d ks \<Longrightarrow> project (Some ks) (PDict d) = Inl KeyError"
  by (simp add: project_def mapE_getitem_absent)

lemma mapE_project_all:
  "list_all (\<lambda>d. has_keys d ks) ds \<Longrightarrow>
   mapE (project (Some ks)) (map PDict ds) = Inr (map (\<lambda>d. PDict (projection d ks)) ds)"
  by (induction ds) (auto simp: project_present)

lemma mapE_fails:
  "x \<in> set xs \<Longrightarrow> f x = Inl e \<Longrightarrow> \<exists>e'. mapE f xs = Inl e'"
  by (induction xs) (auto split: sum.split)

text \<open>
  C4. \<^verbatim>\<open>filter_output\<close> parses its input. For one mapping that has the requested keys
  it returns the mapping of exactly these keys, in the order requested; for a sequence
  of such mappings, the sequence of their projections in the same order. When the input
  does not parse, when a requested key is missing from the mapping or from a mapping of
  the sequence, and on any other error of the body, it returns the input as it was.
\<close>

theorem filter_output_projects:
  "(json_loads E out = Some (PDict d) \<and> filter_on_keys s = Some ks \<and> has_keys d ks \<longrightarrow>
      filter_output E s out = PDict (projection d ks)) \<and>
   (json_loads E out = Some (PList (map PDict ds)) \<and> filter_on_keys s = Some ks \<and>
    list_all (\<lambda>d. has_keys d ks) ds \<longrightarrow>
      filter_output E s out = PList (map (\<lambda>d. PDict (projection d ks)) ds)) \<and>
   (json_loads E out = None \<longrightarrow> filter_output E s out = PStr out) \<and>
   (json_loads E out = Some (PDict d) \<and> filter_on_keys s = Some ks \<and> \<not> has_keys d ks \<longrightarrow>
      filter_output E s out = PStr out) \<and>
   (json_loads E out = Some (PList objs) \<and> filter_on_keys s = Some ks \<and>
    PDict d \<in> set objs \<and> \<not> has_keys d ks \<longrightarrow>
      filter_output E s out = PStr out) \<and>
   (\<forall>e. filter_body E s out = Inl e \<longrightarrow> filter_output E s out = PStr out)"
proof (intro conjI impI allI)
  assume "json_loads E out = Some (PDict d) \<and> filter_on_keys s = Some ks \<and> has_keys d ks"
  then show "filter_output E s out = PDict (projection d ks)"
    by (simp add: filter_output_def filter_body_def project_present)
next
  assume "json_loads E out = Some (PList (map PDict ds)) \<and> filter_on_keys s = Some ks \<and>
    list_all (\<lambda>d. has_keys d ks) ds"
  then show "filter_output E s out = PList (map (\<lambda>d. PDict (projection d ks)) ds)"
    by (simp add: filter_output_def filter_body_def mapE_project_all)
next
  assume "json_loads E out = None"
  then show "filter_output E s out = PStr out"
    by (simp add: filter_output_def filter_body_def)
next
  assume "json_loads E out = Some (PDict d) \<and> filter_on_keys s = Some ks \<and> \<not> has_keys d ks"
  then show "filter_output E s out = PStr out"
    by (simp add: filter_output_def filter_body_def project_absent)
next
  assume a: "json_loads E out = Some (PList objs) \<and> filter_on_keys s = Some ks \<and>
    PDict d \<in> set objs \<and> \<not> has_keys d ks"
  then obtain e where "mapE (project (Some ks)) objs = Inl e"
    using mapE_fails [of "PDict d" objs "project (Some ks)" KeyError]
    by (auto simp: project_absent)
  with a show "filter_output E s out = PStr out"
    by (simp add: filter_output_def filter_body_def)
next
  fix e assume "filter_body E s out = Inl e"
  then show "filter_output E s out = PStr out"
    by (simp add: filter_output_def)
qed

text \<open>The sample session asks for the keys \<^verbatim>\<open>id\<close> and \<^verbatim>\<open>name\<close>.\<close>

theorem filter_output_projects_witness:
  \<open>(json_loads ex_env ''{"id":1,"name":"x","extra":"y"}'' =
        Some (PDict [(''id'', PInt 1), (''name'', PStr ''x''), (''extra'', PStr ''y'')]) \<and>
    filter_on_keys ex_session = Some [''id'', ''name''] \<and>
    has_keys [(''id'', PInt 1), (''name'', PStr ''x''), (''extra'', PStr ''y'')] [''id'', ''name''] \<and>
    filter_output ex_env ex_session ''{"id":1,"name":"x","extra":"y"}'' =
        PDict [(''id'', PInt 1), (''name'', PStr ''x'')]) \<and>
   (json_loads ex_env ''[{"id":1,"name":"x","extra":"y"},{"id":2,"name":"z","extra":"w"}]'' =
        Some (PList (map PDict
          [[(''id'', PInt 1), (''name'', PStr ''x''), (''extra'', PStr ''y'')],
           [(''id'', PInt 2), (''name'', PStr ''z''), (''extra'', PStr ''w'')]])) \<and>
    list_all (\<lambda>d. has_keys d [''id'', ''name''])
          [[(''id'', PInt 1), (''name'', PStr ''x''), (''extra'', PStr ''y'')],
           [(''id'', PInt 2), (''name'', PStr ''z''), (''extra'', PStr ''w'')]] \<and>
    filter_output ex_env ex_session
        ''[{"id":1,"name":"x","extra":"y"},{"id":2,"name":"z","extra":"w"}]'' =
        PList [PDict [(''id'', PInt 1), (''name'', PStr ''x'')],
               PDict [(''id'', PInt 2), (''name'', PStr ''z'')]]) \<and>
   (json_loads ex_env ''<html>'' = None \<and>
    filter_output ex_env ex_session ''<html>'' = PStr ''<html>'') \<and>
   (json_loads ex_env ''{"id":1}'' = Some (PDict [(''id'', PInt 1)]) \<and>
    \<not> has_keys [(''id'', PInt 1)] [''id'', ''name''] \<and>
    filter_output ex_env ex_session ''{"id":1}'' = PStr ''{"id":1}'') \<and>
   (json_loads ex_env ''[{"id":1,"name":"x"},{"id":2}]'' =
        Some (PList [PDict [(''id'', PInt 1), (''name'', PStr ''x'')], PDict [(''id'', PInt 2)]]) \<and>
    PDict [(''id'', PInt 2)] \<in> set [PDict [(''id'', PInt 1), (''name'', PStr ''x'')], PDict [(''id'', PInt 2)]] \<and>
    \<not> has_keys [(''id'', PInt 2)] [''id'', ''name''] \<and>
    filter_output ex_env ex_session ''[{"id":1,"name":"x"},{"id":2}]'' =
        PStr ''[{"id":1,"name":"x"},{"id":2}]'') \<and>
   (filter_body ex_env ex_session ''<html>'' = Inl ValueError \<and>
    filter_output ex_env ex_session ''<html>'' = PStr ''<html>'')\<close>
proof -
  have l: \<open>json_loads ex_env ''{"id":1,"name":"x","extra":"y"}'' =
        Some (PDict [(''id'', PInt 1), (''name'', PStr ''x''), (''extra'', PStr ''y'')])\<close>
    \<open>json_loads ex_env ''[{"id":1,"name":"x","extra":"y"},{"id":2,"name":"z","extra":"w"}]'' =
        Some (PList (map PDict
          [[(''id'', PInt 1), (''name'', PStr ''x''), (''extra'', PStr ''y'')],
           [(''id'', PInt 2), (''name'', PStr ''z''), (''extra'', PStr ''w'')]]))\<close>
    \<open>json_loads ex_env ''<html>'' = None\<close>
    \<open>json_loads ex_env ''{"id":1}'' = Some (PDict [(''id'', PInt 1)])\<close>
    \<open>json_loads ex_env ''[{"id":1,"name":"x"},{"id":2}]'' =
        Some (PList [PDict [(''id'', PInt 1), (''name'', PStr ''x'')], PDict [(''id'', PInt 2)]])\<close>
    by (simp_all add: ex_env_def ex_json_def)
  have k: "filter_on_keys ex_session = Some [''id'', ''name'']"
    by (simp add: ex_session_def)
  have b: \<open>filter_body ex_env ex_session ''<html>'' = Inl ValueError\<close>
    by (simp add: filter_body_def l)
  note t = filter_output_projects [where E = ex_env and s = ex_session and ks = "[''id'', ''name'']"]
  show ?thesis
    using t [where out = \<open>''{"id":1,"name":"x","extra":"y"}''\<close>
               and d = "[(''id'', PInt 1), (''name'', PStr ''x''), (''extra'', PStr ''y'')]"]
          t [where out = \<open>''[{"id":1,"name":"x","extra":"y"},{"id":2,"name":"z","extra":"w"}]''\<close>
               and ds = "[[(''id'', PInt 1), (''name'', PStr ''x''), (''extra'', PStr ''y'')],
           [(''id'', PInt 2), (''name'', PStr ''z''), (''extra'', PStr ''w'')]]"]
          t [where out = \<open>''<html>''\<close>]
          t [where out = \<open>''{"id":1}''\<close> and d = "[(''id'', PInt 1)]"]
          t [where out = \<open>''[{"id":1,"name":"x"},{"id":2}]''\<close> and d = "[(''id'', PInt 2)]"
               and objs = "[PDict [(''id'', PInt 1), (''name'', PStr ''x'')], PDict [(''id'', PInt 2)]]"]
    by (simp add: l k b has_keys_def projection_def keys_in_order_def)
qed

section \<open>The helper layer\<close>





text \<open>
  C10. When \<^verbatim>\<open>get_c2ips_comments\<close> returns None, as it does for an ip that is not
  found, \<^verbatim>\<open>squelch_check\<close> does not return false: iterating over None raises
  TypeError.
\<close>

theorem squelch_check_not_found:
  "(get_c2ips_comments E s ip w = (Inr PNone, w1) \<longrightarrow>
      squelch_check E s ip days w = (Inl TypeError, w1)) \<and>
   (get_c2ips_id E s ip w = (Inr PNone, w0) \<longrightarrow>
      squelch_check E s ip days w = (Inl TypeError, py_print (PStr ''IP not found'') w0))"
  by (simp add: squelch_check_def get_c2ips_comments_def bindE_def)

lemma get_Val:
  "get E s ep i (Some (Val (PDict d))) w =
     (let r = \<lparr>req_method = ''GET'', req_url = build_url s (ep @ id_suffix i),
               req_params = add_credentials s d, req_json = None, req_files = None,
               req_headers = default_headers\<rparr>
      in (case server E (sent w) r of
            Transport_failure \<Rightarrow> Inl TransportError
          | Response st b \<Rightarrow> if st = 401 then Inl AuthError else Inr b,
          w\<lparr>sent := sent w @ [r]\<rparr>))"
  by (simp add: get_def p_request_def send_def Let_def split: reply.split)

text \<open>
  The two branches of \<^verbatim>\<open>get_c2ips_comments\<close>, taken on the truth value of what the
  lookup returned: the diagnostic without a further request, or one GET to
  \<^verbatim>\<open>/comments\<close> with entity type 3 and the id, whose parsed body is returned.
\<close>

lemma get_c2ips_comments_by_truth_value:
  "get_c2ips_id E s ip w = (Inr ident, w1) \<Longrightarrow>
     (\<not> truthy ident \<longrightarrow>
        get_c2ips_comments E s ip w =
          (Inr PNone, w1\<lparr>stdout := stdout w1 @ [PStr ''IP not found'']\<rparr>)) \<and>
     (truthy ident \<longrightarrow>
        (\<exists>r. sent (snd (get_c2ips_comments E s ip w)) = sent w1 @ [r] \<and>
             r = \<lparr>req_method = ''GET'', req_url = build_url s ''/comments'',
                  req_params = add_credentials s [(''entity_type'', PInt 3), (''entity_id'', ident)],
                  req_json = None, req_files = None, req_headers = default_headers\<rparr> \<and>
             (\<forall>st b v. server E (sent w1) r = Response st b \<and> st \<noteq> 401 \<and>
                       json_loads E b = Some v \<longrightarrow>
                fst (get_c2ips_comments E s ip w) = Inr v)))"
  by (auto simp: get_c2ips_comments_def bindE_def py_print_def get_Val Let_def id_suffix_def
        loads_def split: reply.split)

subsection \<open>The sample installation at work\<close>

lemmas ex_defs = get_c2ips_comments_def get_c2ips_id_def bindE_def get_Val Let_def id_suffix_def
  loads_def first_id_def py_print_def ex_env_def ex_session_def ex_world_def ex_server_def
  ex_json_def build_url_def add_credentials_def default_headers_def

lemma ex_id_1: "fst (get_c2ips_id ex_env ex_session ''10.0.0.1'' ex_world) = Inr (PInt 7)"
  by (simp add: ex_defs)

lemma ex_id_2: "fst (get_c2ips_id ex_env ex_session ''10.0.0.2'' ex_world) = Inr PNone"
  by (simp add: ex_defs)

lemma ex_id_3: "fst (get_c2ips_id ex_env ex_session ''10.0.0.3'' ex_world) = Inr (PInt 0)"
  by (simp add: ex_defs)



lemma ex_comments_2:
  "fst (get_c2ips_comments ex_env ex_session ''10.0.0.2'' ex_world) = Inr PNone"
  "stdout (snd (get_c2ips_comments ex_env ex_session ''10.0.0.2'' ex_world)) = [PStr ''IP not found'']"
  by (simp_all add: ex_defs)


theorem squelch_check_not_found_witness:
  "get_c2ips_comments ex_env ex_session ''10.0.0.2'' ex_world =
     (Inr PNone, snd (get_c2ips_comments ex_env ex_session ''10.0.0.2'' ex_world)) \<and>
   squelch_check ex_env ex_session ''10.0.0.2'' 7 ex_world =
     (Inl TypeError, snd (get_c2ips_comments ex_env ex_session ''10.0.0.2'' ex_world)) \<and>
   get_c2ips_id ex_env ex_session ''10.0.0.2'' ex_world =
     (Inr PNone, snd (get_c2ips_id ex_env ex_session ''10.0.0.2'' ex_world)) \<and>
   squelch_check ex_env ex_session ''10.0.0.2'' 7 ex_world =
     (Inl TypeError,
      py_print (PStr ''IP not found'') (snd (get_c2ips_id ex_env ex_session ''10.0.0.2'' ex_world)))"
proof -
  have c: "get_c2ips_comments ex_env ex_session ''10.0.0.2'' ex_world =
     (Inr PNone, snd (get_c2ips_comments ex_env ex_session ''10.0.0.2'' ex_world))"
    by (simp add: prod_eq_iff ex_comments_2)
  have i: "get_c2ips_id ex_env ex_session ''10.0.0.2'' ex_world =
     (Inr PNone, snd (get_c2ips_id ex_env ex_session ''10.0.0.2'' ex_world))"
    by (simp add: prod_eq_iff ex_id_2)
  from squelch_check_not_found
         [of ex_env ex_session "''10.0.0.2''" ex_world
             "snd (get_c2ips_comments ex_env ex_session ''10.0.0.2'' ex_world)" 7
             "snd (get_c2ips_id ex_env ex_session ''10.0.0.2'' ex_world)"] c i
  show ?thesis by blast
qed

text \<open>
  C8. A lookup that succeeds must lead to the comments of the entity; the code tests
  the truth value of the id instead of its presence. The lookup of 10.0.0.3 succeeds
  with the id 0, and \<^verbatim>\<open>get_c2ips_comments\<close> prints \<^verbatim>\<open>IP not found\<close>, returns
  None and sends nothing but the lookup.
\<close>

theorem id_zero_is_not_found:
  "fst (get_c2ips_id ex_env ex_session ''10.0.0.3'' ex_world) = Inr (PInt 0) \<and>
   fst (get_c2ips_comments ex_env ex_session ''10.0.0.3'' ex_world) = Inr PNone \<and>
   stdout (snd (get_c2ips_comments ex_env ex_session ''10.0.0.3'' ex_world)) =
     [PStr ''IP not found''] \<and>
   length (sent (snd (get_c2ips_comments ex_env ex_session ''10.0.0.3'' ex_world))) = 1"
  by (simp add: ex_defs)




end
